theory Spec2Isabelle
  imports Main "HOL-Library.Sublist" "HOL-Library.Word"
begin

section \<open>Python strings\<close>

text \<open>
  The update protocol module works on Python \<open>str\<close> values with \<open>in\<close>,
  \<open>str.split\<close>, slicing and one regular expression.  Strings are character lists;
  each operation is written out with the behaviour Python has on the corner cases
  (empty separator, separator at the end, empty slice).
\<close>

datatype exn =
    KeyError | TypeError | ValueError | IndexError | AttributeError
  | UrlopenError | OSError | ReadError | RuntimeError string | RuntimeErrorFmt string int

text \<open>\<open>sub in s\<close> on strings: \<open>sub\<close> occurs as a contiguous run; the empty
  string occurs in every string.\<close>

fun py_in :: "string \<Rightarrow> string \<Rightarrow> bool" where
  "py_in sub [] = (sub = [])"
| "py_in sub (c # cs) = (prefix sub (c # cs) \<or> py_in sub cs)"

text \<open>\<open>s.split(sep)\<close> for a non-empty separator: the pieces between the leftmost
  non-overlapping occurrences of \<open>sep\<close>; \<open>cur\<close> holds the piece being read, reversed.\<close>

fun split_from :: "string \<Rightarrow> string \<Rightarrow> string \<Rightarrow> string list" where
  "split_from sep cur [] = [rev cur]"
| "split_from sep cur (c # cs) =
     (if prefix sep (c # cs) then rev cur # split_from sep [] (drop (length sep - 1) cs)
      else split_from sep (c # cur) cs)"

text \<open>An empty separator raises \<open>ValueError\<close>.\<close>

definition py_split :: "string \<Rightarrow> string \<Rightarrow> exn + string list" where
  "py_split s sep = (if sep = [] then Inl ValueError else Inr (split_from sep [] s))"

text \<open>
  The pattern of \<open>fetchAddonInfo\<close> is \<open>(?P<name>)-(?P<version>.*).nvda-addon\<close>.
  The group \<open>name\<close> is empty, so a match starts at a hyphen.  \<open>.*\<close> is greedy and,
  like the single \<open>.\<close> after it, matches no line feed.  \<open>greedy_version\<close> matches
  \<open>(?P<version>.*).nvda-addon\<close> at the start of its argument and gives the text of the
  group: the longest run that still leaves one character and \<open>nvda-addon\<close> behind it.
\<close>

fun greedy_version :: "string \<Rightarrow> string option" where
  "greedy_version [] = None"
| "greedy_version (c # cs) =
     (if c = CHR 0x0A then None
      else (case greedy_version cs of
              Some v \<Rightarrow> Some (c # v)
            | None \<Rightarrow> if prefix ''nvda-addon'' cs then Some [] else None))"

text \<open>\<open>re.search\<close> tries the start positions from left to right and keeps the first
  that matches; \<open>None\<close> is Python's \<open>None\<close> (no match).\<close>

fun re_search_version :: "string \<Rightarrow> string option" where
  "re_search_version [] = None"
| "re_search_version (c # cs) =
     (if c = CHR ''-''
      then (case greedy_version cs of Some v \<Rightarrow> Some v | None \<Rightarrow> re_search_version cs)
      else re_search_version cs)"

text \<open>
  Lines 278 to 285 of \<open>fetchAddonInfo\<close>: the version is searched in the text after the
  last slash of the URL.  No match makes \<open>.groupdict()\<close> fail on \<open>None\<close> inside the
  \<open>try\<close>, which the bare \<open>except\<close> turns into a return (\<open>Inr None\<close> here).
  If the add-on's name occurs in the version, the version becomes the second piece of
  \<open>version.split(addon)\<close> without its first character; that statement is outside
  the \<open>try\<close>, so the \<open>ValueError\<close> of an empty name escapes (\<open>Inl\<close>).
\<close>

definition extractVersion :: "string \<Rightarrow> string \<Rightarrow> exn + string option" where
  "extractVersion addon addonUrl =
     (case re_search_version (last (split_from ''/'' [] addonUrl)) of
        None \<Rightarrow> Inr None
      | Some version \<Rightarrow>
          if py_in addon version
          then (case py_split version addon of
                  Inl e \<Rightarrow> Inl e
                | Inr pieces \<Rightarrow>
                    (case pieces of
                       _ # piece # _ \<Rightarrow> Inr (Some (drop 1 piece))
                     | _ \<Rightarrow> Inl IndexError))
          else Inr (Some version))"


section \<open>Dictionaries and JSON values\<close>

text \<open>
  A Python \<open>dict\<close> is an association list without repeated keys, in insertion order.
  \<open>d[k] = v\<close> replaces the value of a key that is there and appends a new key.
\<close>

fun dict_set :: "'k \<Rightarrow> 'v \<Rightarrow> ('k \<times> 'v) list \<Rightarrow> ('k \<times> 'v) list" where
  "dict_set k v [] = [(k, v)]"
| "dict_set k v ((k', v') # kvs) =
     (if k = k' then (k, v) # kvs else (k', v') # dict_set k v kvs)"

definition dict_update :: "('k \<times> 'v) list \<Rightarrow> ('k \<times> 'v) list \<Rightarrow> ('k \<times> 'v) list" where
  "dict_update d kvs = fold (\<lambda>(k, v). dict_set k v) kvs d"

text \<open>
  What \<open>json.load\<close> gives.  Numbers are integers here; the feed's version fields are
  lists of integers, and a floating point number is outside this model.
\<close>

datatype json =
    JNull
  | JBool bool
  | JNum int
  | JStr string
  | JList "json list"
  | JObj "(string \<times> json) list"

text \<open>\<open>x[key]\<close> with a string key: only a dict can answer; a list, a string and the
  scalars raise \<open>TypeError\<close>.\<close>

fun py_getitem :: "json \<Rightarrow> string \<Rightarrow> exn + json" where
  "py_getitem (JObj kvs) key = (case map_of kvs key of None \<Rightarrow> Inl KeyError | Some v \<Rightarrow> Inr v)"
| "py_getitem _ key = Inl TypeError"

text \<open>\<open>key in x\<close> with a string key.\<close>

fun py_contains :: "json \<Rightarrow> string \<Rightarrow> exn + bool" where
  "py_contains (JObj kvs) key = Inr (map_of kvs key \<noteq> None)"
| "py_contains (JList xs) key = Inr (JStr key \<in> set xs)"
| "py_contains (JStr s) key = Inr (py_in key s)"
| "py_contains _ key = Inl TypeError"

text \<open>\<open>x.get(key)\<close>: \<open>None\<close> for a missing key; only a dict has the method.\<close>

fun py_get :: "json \<Rightarrow> string \<Rightarrow> exn + json" where
  "py_get (JObj kvs) key = (case map_of kvs key of None \<Rightarrow> Inr JNull | Some v \<Rightarrow> Inr v)"
| "py_get _ key = Inl AttributeError"

datatype pytype = Str | List

fun isinstance :: "json \<Rightarrow> pytype \<Rightarrow> bool" where
  "isinstance (JStr _) Str = True"
| "isinstance (JList _) List = True"
| "isinstance _ _ = False"

section \<open>Metadata validation\<close>

definition metadataFieldTypes :: "(string \<times> pytype) list" where
  "metadataFieldTypes =
     [(''summary'', Str), (''author'', Str),
      (''minimumNVDAVersion'', List), (''lastTestedNVDAVersion'', List)]"

text \<open>The list comprehension of \<open>validateAddonMetadata\<close>: every field is read with
  \<open>addonMetadata[field]\<close>, so a field that is missing raises instead of giving \<open>False\<close>.\<close>

fun fieldChecks :: "json \<Rightarrow> (string \<times> pytype) list \<Rightarrow> exn + bool list" where
  "fieldChecks addonMetadata [] = Inr []"
| "fieldChecks addonMetadata ((field, fieldType) # rest) =
     (case py_getitem addonMetadata field of
        Inl e \<Rightarrow> Inl e
      | Inr v \<Rightarrow>
          (case fieldChecks addonMetadata rest of
             Inl e \<Rightarrow> Inl e
           | Inr bs \<Rightarrow> Inr (isinstance v fieldType # bs)))"

definition validateAddonMetadata :: "json \<Rightarrow> exn + bool" where
  "validateAddonMetadata addonMetadata =
     (case fieldChecks addonMetadata metadataFieldTypes of
        Inl e \<Rightarrow> Inl e
      | Inr metadataValid \<Rightarrow>
          (case py_contains addonMetadata ''addonKey'' of
             Inl e \<Rightarrow> Inl e
           | Inr False \<Rightarrow> Inr (list_all id metadataValid)
           | Inr True \<Rightarrow>
               (case py_getitem addonMetadata ''addonKey'' of
                  Inl e \<Rightarrow> Inl e
                | Inr k \<Rightarrow> Inr (list_all id (metadataValid @ [isinstance k Str])))))"

section \<open>The compatibility gate\<close>

text \<open>
  \<open>addonUtils.updateState\<close> and the two constants of NVDA's \<open>addonAPIVersion\<close> are
  not part of this module; they are parameters.  The constants are tuples of integers.
\<close>

record updateState =
  noUpdates :: "string list"
  devUpdates :: "string list"

record addonAPIVersion =
  CURRENT :: "int list"
  BACK_COMPAT_TO :: "int list"

text \<open>\<open>tuple(x)\<close>: the items of a list, the characters of a string, the keys of a dict.\<close>

fun py_tuple :: "json \<Rightarrow> exn + json list" where
  "py_tuple (JList xs) = Inr xs"
| "py_tuple (JStr s) = Inr (map (\<lambda>c. JStr [c]) s)"
| "py_tuple (JObj kvs) = Inr (map (\<lambda>kv. JStr (fst kv)) kvs)"
| "py_tuple _ = Inl TypeError"

text \<open>The integer a JSON value is equal to and ordered as, if any (\<open>True == 1\<close>).\<close>

fun as_int :: "json \<Rightarrow> int option" where
  "as_int (JNum n) = Some n"
| "as_int (JBool b) = Some (if b then 1 else 0)"
| "as_int _ = None"

text \<open>
  Tuple comparison: the first position where the items are not equal decides, by
  comparing the two items there (\<open>TypeError\<close> when the item is no number); when one
  tuple is a prefix of the other the lengths decide.
\<close>

fun tuple_le :: "json list \<Rightarrow> int list \<Rightarrow> exn + bool" where
  "tuple_le [] ws = Inr True"
| "tuple_le (v # vs) [] = Inr False"
| "tuple_le (v # vs) (w # ws) =
     (if as_int v = Some w then tuple_le vs ws
      else (case as_int v of None \<Rightarrow> Inl TypeError | Some a \<Rightarrow> Inr (a \<le> w)))"

fun tuple_ge :: "json list \<Rightarrow> int list \<Rightarrow> exn + bool" where
  "tuple_ge vs [] = Inr True"
| "tuple_ge [] (w # ws) = Inr False"
| "tuple_ge (v # vs) (w # ws) =
     (if as_int v = Some w then tuple_ge vs ws
      else (case as_int v of None \<Rightarrow> Inl TypeError | Some a \<Rightarrow> Inr (a \<ge> w)))"

definition addonCompatibleAccordingToMetadata ::
  "updateState \<Rightarrow> addonAPIVersion \<Rightarrow> string \<Rightarrow> json \<Rightarrow> exn + bool" where
  "addonCompatibleAccordingToMetadata st api addon addonMetadata =
     (if addon \<in> set (devUpdates st) then Inr True
      else
        (case py_getitem addonMetadata ''minimumNVDAVersion'' of
           Inl e \<Rightarrow> Inl e
         | Inr mn \<Rightarrow>
        (case py_tuple mn of
           Inl e \<Rightarrow> Inl e
         | Inr minimumNVDAVersion \<Rightarrow>
        (case py_getitem addonMetadata ''lastTestedNVDAVersion'' of
           Inl e \<Rightarrow> Inl e
         | Inr lt \<Rightarrow>
        (case py_tuple lt of
           Inl e \<Rightarrow> Inl e
         | Inr lastTestedNVDAVersion \<Rightarrow>
        (case tuple_le minimumNVDAVersion (CURRENT api) of
           Inl e \<Rightarrow> Inl e
         | Inr False \<Rightarrow> Inr False
         | Inr True \<Rightarrow> tuple_ge lastTestedNVDAVersion (BACK_COMPAT_TO api)))))))"


section \<open>Resolving one add-on\<close>

text \<open>The key map that ships with the add-on (\<open>names2urls\<close>).\<close>

definition names2urls :: "(string \<times> string) list" where
  "names2urls =
     [(''addonUpdater'', ''nvda3208''), (''Access8Math'', ''access8math''),
      (''addonsHelp'', ''addonshelp''), (''audioChart'', ''audiochart''),
      (''beepKeyboard'', ''beepkeyboard''), (''bluetoothaudio'', ''btaudio''),
      (''browsernav'', ''browsernav''), (''calibre'', ''cae''),
      (''charInfo'', ''chari''), (''checkGestures'', ''cig''),
      (''classicSelection'', ''clsel''), (''clipContentsDesigner'', ''ccd''),
      (''clipspeak'', ''cs''), (''clock'', ''cac''),
      (''consoleToolkit'', ''consoletoolkit''), (''controlUsageAssistant'', ''cua''),
      (''dayOfTheWeek'', ''dw''), (''debugHelper'', ''debughelper''),
      (''developerToolkit'', ''devtoolkit''), (''dropbox'', ''dx''),
      (''easyTableNavigator'', ''etn''), (''emoticons'', ''emo''),
      (''eMule'', ''em''), (''enhancedTouchGestures'', ''ets''),
      (''extendedWinamp'', ''ew''), (''focusHighlight'', ''fh''),
      (''goldenCursor'', ''gc''), (''goldwave'', ''gwv''),
      (''IndentNav'', ''indentnav''), (''inputLock'', ''inputlock''),
      (''instantTranslate'', ''it''), (''killNVDA'', ''killnvda''),
      (''lambda'', ''lambda''), (''mp3DirectCut'', ''mp3dc''),
      (''Mozilla'', ''moz''), (''noBeepsSpeechMode'', ''nb''),
      (''NotepadPlusPlus'', ''NotepadPlusPlus''), (''numpadNavMode'', ''numpadNav''),
      (''nvSpeechPlayer'', ''nvsp''), (''objLocTones'', ''objLoc''),
      (''objPad'', ''objPad''), (''ocr'', ''ocr''),
      (''outlookExtended'', ''outlookextended''), (''pcKbBrl'', ''pckbbrl''),
      (''phoneticPunctuation'', ''phoneticpunc''), (''placeMarkers'', ''pm''),
      (''proxy'', ''nvdaproxy''), (''quickDictionary'', ''quickdictionary''),
      (''readFeeds'', ''rf''), (''remote'', ''nvdaremote''),
      (''reportPasswords'', ''rp''), (''reportSymbols'', ''rsy''),
      (''resourceMonitor'', ''rm''), (''reviewCursorCopier'', ''rccp''),
      (''sayCurrentKeyboardLanguage'', ''ckbl''), (''SentenceNav'', ''sentencenav''),
      (''speakPasswords'', ''spp''), (''speechHistory'', ''sps''),
      (''stationPlaylist'', ''spl''), (''switchSynth'', ''sws''),
      (''synthRingSettingsSelector'', ''synthrings''), (''systrayList'', ''st''),
      (''textInformation'', ''txtinfo''), (''textnav'', ''textnav''),
      (''timezone'', ''tz''), (''toneMaster'', ''tmast''),
      (''tonysEnhancements'', ''tony''), (''toolbarsExplorer'', ''tbx''),
      (''trainingKeyboardCommands'', ''trainingkbdcmd''), (''unicodeBrailleInput'', ''ubi''),
      (''updateChannel'', ''updchannelselect''), (''virtualRevision'', ''VR''),
      (''VLC'', ''vlc-18''), (''wintenApps'', ''w10''),
      (''winWizard'', ''winwizard''), (''wordCount'', ''wc''),
      (''wordNav'', ''wordnav''), (''zoomEnhancements'', ''zoom'')]"

definition addonsWithUpdaters :: "string list" where
  "addonsWithUpdaters = [''BrailleExtender'', ''Weather Plus'']"

text \<open>
  The addresses of module \<open>urls\<close> are not part of the sources at hand; they are
  parameters.
\<close>

record URLs =
  communityAddonsList :: string
  metadata :: string
  communityFileGetter :: string
  communityHostedFile :: string

text \<open>
  The network.  \<open>urlopen\<close> either returns a response or raises.  Three kinds of
  exception are told apart by the handlers: an \<open>IOError\<close> whose reason is the failed
  verification of the certificate, any other \<open>IOError\<close>, and an exception that the
  clause \<open>except IOError\<close> does not handle.  An \<open>IOError\<close> without the attribute
  \<open>reason\<close> counts as the last kind: reading \<open>e.reason\<close> raises inside the handler.
  The update of the root certificates is taken not to raise.  The Boolean argument of each operation says
  whether the call is the second one, made after the root certificates were updated.
  The body of a response is given as what \<open>json.load\<close> makes of it, \<open>None\<close> when
  \<open>json.load\<close> (or the \<open>update\<close> fed with it) raises.  The catalogue maps keys to
  strings.
\<close>

datatype urlopen_exn = CertificateVerifyFailed | OtherIOError | NotIOError

datatype 'a urlopen = Raises urlopen_exn | Opened 'a

record 'b response =
  res_code :: int
  res_url :: string
  res_body :: 'b

record network =
  open_communityAddonsList :: "bool \<Rightarrow> (string \<times> string) list option response urlopen"
  open_metadata :: "bool \<Rightarrow> (string \<times> json) list option response urlopen"
  open_communityFileGetter :: "string \<Rightarrow> bool \<Rightarrow> unit response urlopen"

text \<open>What the program does to the outside, in order.\<close>

datatype event = UrlOpen string | UpdateWindowsRootCertificates

text \<open>
  The three fetches share one shape:
  \<^verbatim>\<open>try: res = urlopen(u)\<close>,
  \<^verbatim>\<open>except IOError as e:\<close> on a certificate failure update the root certificates and
  call \<open>urlopen\<close> once more, otherwise run the handler's \<open>else\<close> branch.
  \<open>Got\<close>: \<open>res\<close> is set.  \<open>Handled\<close>: the \<open>else\<close> branch ran and \<open>res\<close> is \<open>None\<close>.
  \<open>Escaped\<close>: an exception leaves the statement (the first call raised something
  the clause does not handle, or the second call raised inside the handler), \<open>res\<close> is
  \<open>None\<close> in the \<open>finally\<close> block.
\<close>

datatype 'a attempt = Got 'a | Handled | Escaped

definition try_urlopen :: "(bool \<Rightarrow> 'a urlopen) \<Rightarrow> string \<Rightarrow> 'a attempt \<times> event list" where
  "try_urlopen opn u =
     (case opn False of
        Opened res \<Rightarrow> (Got res, [UrlOpen u])
      | Raises CertificateVerifyFailed \<Rightarrow>
          (case opn True of
             Opened res \<Rightarrow> (Got res, [UrlOpen u, UpdateWindowsRootCertificates, UrlOpen u])
           | Raises _ \<Rightarrow> (Escaped, [UrlOpen u, UpdateWindowsRootCertificates, UrlOpen u]))
      | Raises OtherIOError \<Rightarrow> (Handled, [UrlOpen u])
      | Raises NotIOError \<Rightarrow> (Escaped, [UrlOpen u]))"

text \<open>The values of the \<open>results\<close> dictionary: the strings of the catalogue, and the
  \<open>True\<close> that \<open>_currentCommunityAddons\<close> stores under \<open>error\<close>.\<close>

datatype cval = CStr string | CTrue

record manifestInfo =
  mi_summary :: string
  mi_version :: string
  mi_channel :: "string option"

record updateInfo =
  info_curVersion :: string
  info_version :: string
  info_path :: string

text \<open>The installed add-ons as NVDA's \<open>addonHandler\<close> lists them, and the flags of the
  host.\<close>

record manifest =
  manifest_name :: string
  manifest_summary :: string
  manifest_version :: string
  manifest_updateChannel :: "string option"

record addon =
  addon_name :: string
  addon_manifest :: manifest
  isPendingRemove :: bool

record environment =
  urls :: URLs
  net :: network
  state :: updateState
  api :: addonAPIVersion
  secure :: bool
  availableAddons :: "addon list"

text \<open>
  Lines 211 to 219: the metadata of the add-on and whether it is present.  Only
  \<open>KeyError\<close> is caught; the outcome of the validation replaces the flag.
\<close>

definition addonMetadataFor :: "(string \<times> json) list \<Rightarrow> string \<Rightarrow> exn + json \<times> bool" where
  "addonMetadataFor addonsData addon =
     (case map_of addonsData ''active'' of
        None \<Rightarrow> Inr (JObj [], False)
      | Some active \<Rightarrow>
          (case py_getitem active addon of
             Inl KeyError \<Rightarrow> Inr (JObj [], False)
           | Inl e \<Rightarrow> Inl e
           | Inr addonMetadata \<Rightarrow>
               (case validateAddonMetadata addonMetadata of
                  Inl e \<Rightarrow> Inl e
                | Inr valid \<Rightarrow> Inr (addonMetadata, valid))))"

text \<open>\<open>addonKey += "-" + channel\<close>: a string is extended; a list would be extended by
  the characters; anything else raises.\<close>

fun py_iadd_str :: "json \<Rightarrow> string \<Rightarrow> exn + json" where
  "py_iadd_str (JStr k) s = Inr (JStr (k @ s))"
| "py_iadd_str (JList xs) s = Inr (JList (xs @ map (\<lambda>c. JStr [c]) s))"
| "py_iadd_str _ s = Inl TypeError"

text \<open>Lines 221 to 232: the add-on key, \<open>Inr None\<close> for the \<open>return\<close> of line 228.\<close>

definition addonKeyFor :: "json \<Rightarrow> bool \<Rightarrow> string \<Rightarrow> string option \<Rightarrow> exn + json option" where
  "addonKeyFor addonMetadata addonMetadataPresent addon channel =
     (case (if addonMetadataPresent then py_get addonMetadata ''addonKey'' else Inr JNull) of
        Inl e \<Rightarrow> Inl e
      | Inr k \<Rightarrow>
          (case (if k = JNull then map_option JStr (map_of names2urls addon) else Some k) of
             None \<Rightarrow> Inr None
           | Some addonKey \<Rightarrow>
               (case channel of
                  None \<Rightarrow> Inr (Some addonKey)
                | Some ch \<Rightarrow>
                    (case py_iadd_str addonKey (''-'' @ ch) of
                       Inl e \<Rightarrow> Inl e
                     | Inr addonKey' \<Rightarrow> Inr (Some addonKey')))))"

text \<open>
  Lines 244 to 269: the second address.  \<open>Inr None\<close> is the \<open>return\<close> of line 269;
  \<open>Inl\<close> is the exception that leaves the function.
\<close>

definition secondaryUrl :: "URLs \<Rightarrow> network \<Rightarrow> string \<Rightarrow> (exn + string option) \<times> event list" where
  "secondaryUrl us nw addonKey =
     (case try_urlopen (open_communityFileGetter nw addonKey) (communityFileGetter us @ addonKey) of
        (Got res, ev) \<Rightarrow> (if res_code res \<noteq> 200 then Inr None else Inr (Some (res_url res)), ev)
      | (Handled, ev) \<Rightarrow> (Inr None, ev)
      | (Escaped, ev) \<Rightarrow> (Inl UrlopenError, ev))"

text \<open>Lines 271 to 287, from the address to the entry of \<open>info\<close>.\<close>

definition versionCheck :: "URLs \<Rightarrow> string \<Rightarrow> string \<Rightarrow> string \<Rightarrow> exn + updateInfo option" where
  "versionCheck us addon addonVersion url =
     (let addonUrl = (if \<not> py_in ''/'' url then communityHostedFile us @ url else url)
      in case extractVersion addon addonUrl of
           Inl e \<Rightarrow> Inl e
         | Inr None \<Rightarrow> Inr None
         | Inr (Some v) \<Rightarrow>
             if addonVersion \<noteq> v
             then Inr (Some \<lparr>info_curVersion = addonVersion, info_version = v, info_path = addonUrl\<rparr>)
             else Inr None)"

text \<open>
  Lines 209 to 269 of \<open>fetchAddonInfo\<close>: the address of the add-on as it stands
  before line 271.  \<open>Inr None\<close> is one of the returns of lines 228, 237, 241 and 269,
  \<open>Inl e\<close> an exception that leaves the function.  The look-up
  \<open>results[addonKey]\<close> stands in a \<open>try\<close> with a bare \<open>except\<close>: a key that is no
  string is not found or not hashable, and the function returns.  The test
  \<open>".nvda-addon" not in addonUrl\<close> raises on the \<open>True\<close> stored under \<open>error\<close>.
  Of the manifest only the channel is read here.
\<close>

definition resolveAddonUrl ::
  "environment \<Rightarrow> (string \<times> cval) list \<Rightarrow> string \<Rightarrow> string option \<Rightarrow> (string \<times> json) list
     \<Rightarrow> (exn + string option) \<times> event list" where
  "resolveAddonUrl env results addon channel addonsData =
     (case addonMetadataFor addonsData addon of
        Inl e \<Rightarrow> (Inl e, [])
      | Inr (addonMetadata, addonMetadataPresent) \<Rightarrow>
     (case addonKeyFor addonMetadata addonMetadataPresent addon channel of
        Inl e \<Rightarrow> (Inl e, [])
      | Inr None \<Rightarrow> (Inr None, [])
      | Inr (Some addonKey) \<Rightarrow>
     (case (if addonMetadataPresent
            then addonCompatibleAccordingToMetadata (state env) (api env) addon addonMetadata
            else Inr True) of
        Inl e \<Rightarrow> (Inl e, [])
      | Inr False \<Rightarrow> (Inr None, [])
      | Inr True \<Rightarrow>
     (case addonKey of
        JStr key \<Rightarrow>
          (case map_of results key of
             None \<Rightarrow> (Inr None, [])
           | Some CTrue \<Rightarrow> (Inl TypeError, [])
           | Some (CStr addonUrl) \<Rightarrow>
               if \<not> py_in ''.nvda-addon'' addonUrl
               then secondaryUrl (urls env) (net env) key
               else (Inr (Some addonUrl), []))
      | _ \<Rightarrow> (Inr None, [])))))"

text \<open>
  \<open>fetchAddonInfo\<close>: the address is resolved and the version in it compared with the
  installed one.  \<open>Inr (Some i)\<close> is the assignment \<open>info[addon] = i\<close> of line 287,
  \<open>Inr None\<close> a return that leaves \<open>info\<close> alone, \<open>Inl e\<close> an exception that leaves
  the function (and ends the thread it runs in).
\<close>

definition fetchAddonInfo ::
  "environment \<Rightarrow> (string \<times> cval) list \<Rightarrow> string \<Rightarrow> manifestInfo \<Rightarrow> (string \<times> json) list
     \<Rightarrow> (exn + updateInfo option) \<times> event list" where
  "fetchAddonInfo env results addon mi addonsData =
     (case resolveAddonUrl env results addon (mi_channel mi) addonsData of
        (Inl e, ev) \<Rightarrow> (Inl e, ev)
      | (Inr None, ev) \<Rightarrow> (Inr None, ev)
      | (Inr (Some url), ev) \<Rightarrow> (versionCheck (urls env) addon (mi_version mi) url, ev))"


section \<open>The check cycle\<close>

text \<open>
  \<open>_currentCommunityAddons\<close> and \<open>_currentCommunityAddonsMetadata\<close> run as the target
  of a thread that is joined at once.  An exception that leaves the target ends the
  thread and is not seen by the caller; what the caller sees is the dictionary the
  thread was given.
\<close>

definition currentCommunityAddons ::
  "environment \<Rightarrow> (string \<times> cval) list \<Rightarrow> (string \<times> cval) list \<times> event list" where
  "currentCommunityAddons env results =
     (case try_urlopen (open_communityAddonsList (net env)) (communityAddonsList (urls env)) of
        (Got res, ev) \<Rightarrow>
          (case res_body res of
             None \<Rightarrow> (results, ev)
           | Some doc \<Rightarrow> (dict_update results (map (\<lambda>(k, v). (k, CStr v)) doc), ev))
      | (Handled, ev) \<Rightarrow> (dict_set ''error'' CTrue results, ev)
      | (Escaped, ev) \<Rightarrow> (results, ev))"

definition currentCommunityAddonsMetadata ::
  "environment \<Rightarrow> (string \<times> json) list \<Rightarrow> (string \<times> json) list \<times> event list" where
  "currentCommunityAddonsMetadata env addonsData =
     (case try_urlopen (open_metadata (net env)) (metadata (urls env)) of
        (Got res, ev) \<Rightarrow>
          (case res_body res of
             None \<Rightarrow> (addonsData, ev)
           | Some doc \<Rightarrow> (dict_update addonsData doc, ev))
      | (Handled, ev) \<Rightarrow> ([], ev)
      | (Escaped, ev) \<Rightarrow> (addonsData, ev))"

text \<open>
  One thread per add-on runs \<open>fetchAddonInfo\<close>; all are joined.  Each thread writes
  only the key of its own add-on, and the keys of \<open>curAddons\<close> are distinct, so the
  content of \<open>info\<close> does not depend on the interleaving.  The threads are run here
  one after the other in the order of \<open>curAddons\<close>.
\<close>

fun fetchAll ::
  "environment \<Rightarrow> (string \<times> cval) list \<Rightarrow> (string \<times> json) list \<Rightarrow> (string \<times> manifestInfo) list
     \<Rightarrow> (string \<times> updateInfo) list \<Rightarrow> (string \<times> updateInfo) list \<times> event list" where
  "fetchAll env results addonsData [] info = (info, [])"
| "fetchAll env results addonsData ((addon, mi) # rest) info =
     (case fetchAddonInfo env results addon mi addonsData of
        (Inr (Some i), ev) \<Rightarrow>
          (case fetchAll env results addonsData rest (dict_set addon i info) of
             (info', ev') \<Rightarrow> (info', ev @ ev'))
      | (_, ev) \<Rightarrow>
          (case fetchAll env results addonsData rest info of
             (info', ev') \<Rightarrow> (info', ev @ ev')))"

definition checkForAddonUpdate ::
  "environment \<Rightarrow> (string \<times> manifestInfo) list
     \<Rightarrow> (exn + (string \<times> updateInfo) list) \<times> event list" where
  "checkForAddonUpdate env curAddons =
     (case currentCommunityAddons env [] of
        (results, ev1) \<Rightarrow>
          if map_of results ''error'' \<noteq> None
          then (Inl (RuntimeError ''Failed to retrieve community add-ons''), ev1)
          else (case currentCommunityAddonsMetadata env [] of
                  (addonsData, ev2) \<Rightarrow>
                    (case fetchAll env results addonsData curAddons [] of
                       (info, ev3) \<Rightarrow> (Inr info, ev1 @ ev2 @ ev3))))"

record AddonUpdateRecord =
  name :: string
  summary :: string
  version :: string
  installedVersion :: string
  url :: string
  hash :: "string option"
  minimumNVDAVersion :: "int list"
  lastTestedNVDAVersion :: "int list"
  updateChannel :: "string option"


text \<open>\<open>str.lower\<close> on the letters A to Z; other characters stay.\<close>

definition lower_char :: "char \<Rightarrow> char" where
  "lower_char c =
     (case map_of (zip ''ABCDEFGHIJKLMNOPQRSTUVWXYZ'' ''abcdefghijklmnopqrstuvwxyz'') c of
        Some l \<Rightarrow> l
      | None \<Rightarrow> c)"

text \<open>Lines 382 to 388: the channel of one add-on.\<close>

definition updateChannelFor :: "updateState \<Rightarrow> string \<Rightarrow> string option \<Rightarrow> string option" where
  "updateChannelFor st nm manifestChannel =
     (let updateChannel = (if manifestChannel = Some ''None'' then None else manifestChannel)
      in if updateChannel \<noteq> Some ''dev'' \<and> nm \<in> set (devUpdates st) then Some ''dev''
         else if updateChannel = Some ''dev'' \<and> nm \<notin> set (devUpdates st) then None
         else updateChannel)"

text \<open>The loop of lines 368 to 390 over the installed add-ons.\<close>

fun prepareAddons ::
  "updateState \<Rightarrow> addon list \<Rightarrow> (string \<times> manifestInfo) list \<Rightarrow> (string \<times> string) list
     \<Rightarrow> (string \<times> manifestInfo) list \<times> (string \<times> string) list" where
  "prepareAddons st [] curAddons addonSummaries = (curAddons, addonSummaries)"
| "prepareAddons st (a # rest) curAddons addonSummaries =
     (if addon_name a \<in> set addonsWithUpdaters then prepareAddons st rest curAddons addonSummaries
      else if py_in ''vocalizer'' (map lower_char (addon_name a))
      then prepareAddons st rest curAddons addonSummaries
      else if addon_name a \<in> set (noUpdates st) then prepareAddons st rest curAddons addonSummaries
      else prepareAddons st rest
             (dict_set (addon_name a)
                \<lparr>mi_summary = manifest_summary (addon_manifest a),
                 mi_version = manifest_version (addon_manifest a),
                 mi_channel = updateChannelFor st (addon_name a)
                                (manifest_updateChannel (addon_manifest a))\<rparr>
                curAddons)
             (dict_set (addon_name a) (manifest_summary (addon_manifest a)) addonSummaries))"

text \<open>The loop of lines 400 to 408; a missing key would raise \<open>KeyError\<close>.\<close>

fun updateRecords ::
  "(string \<times> string) list \<Rightarrow> (string \<times> manifestInfo) list \<Rightarrow> (string \<times> updateInfo) list
     \<Rightarrow> exn + AddonUpdateRecord list" where
  "updateRecords addonSummaries curAddons [] = Inr []"
| "updateRecords addonSummaries curAddons ((addon, i) # rest) =
     (case map_of addonSummaries addon of
        None \<Rightarrow> Inl KeyError
      | Some s \<Rightarrow>
          (case map_of curAddons addon of
             None \<Rightarrow> Inl KeyError
           | Some mi \<Rightarrow>
               (case updateRecords addonSummaries curAddons rest of
                  Inl e \<Rightarrow> Inl e
                | Inr res \<Rightarrow>
                    Inr (\<lparr>name = addon, summary = s, version = info_version i,
                          installedVersion = info_curVersion i, url = info_path i,
                          hash = None, minimumNVDAVersion = [0, 0, 0],
                          lastTestedNVDAVersion = [0, 0, 0],
                          updateChannel = mi_channel mi\<rparr> # res))))"

text \<open>\<open>checkForAddonUpdates\<close>: \<open>Inr None\<close> is the value \<open>None\<close>.\<close>

definition checkForAddonUpdates ::
  "environment \<Rightarrow> (exn + AddonUpdateRecord list option) \<times> event list" where
  "checkForAddonUpdates env =
     (if secure env then (Inr None, [])
      else
        (case prepareAddons (state env) (availableAddons env) [] [] of
           (curAddons, addonSummaries) \<Rightarrow>
             (case checkForAddonUpdate env curAddons of
                (Inl e, ev) \<Rightarrow>
                  (Inl (RuntimeError ''Cannot check for community add-on updates''), ev)
              | (Inr info, ev) \<Rightarrow>
                  if length info = 0 then (Inr None, ev)
                  else (case updateRecords addonSummaries curAddons info of
                          Inl e \<Rightarrow> (Inl e, ev)
                        | Inr res \<Rightarrow> (Inr (Some res), ev)))))"


section \<open>Downloading\<close>

text \<open>
  The response of the download address is a stream: \<open>pending\<close> holds the bytes the server
  delivers, and \<open>caps\<close> lets a \<open>read\<close> come back short (the \<open>i\<close>-th read gives at
  most \<open>Suc\<close> of the \<open>i\<close>-th cap; an exhausted list means full reads).  After the
  bytes of \<open>pending\<close> the stream has ended and a read gives no byte, unless the stream
  is \<open>broken\<close>: then the read that asks for more raises (a time-out, a connection that
  was reset).  A read that asks for no byte gives none and does not raise.
\<close>

type_synonym byte = "8 word"

record remote =
  pending :: "byte list"
  caps :: "nat list"
  broken :: bool

definition remote_read :: "remote \<Rightarrow> nat \<Rightarrow> exn + byte list \<times> remote" where
  "remote_read r n =
     (if 0 < n \<and> pending r = [] \<and> broken r then Inl ReadError
      else (let k = (case caps r of [] \<Rightarrow> n | c # _ \<Rightarrow> min n (Suc c))
            in Inr (take k (pending r),
                    r\<lparr>pending := drop k (pending r), caps := tl (caps r)\<rparr>)))"

text \<open>\<open>dl_size\<close> is the value of \<open>int(remote.headers["content-length"])\<close>:
  \<open>TypeError\<close> without the header, \<open>ValueError\<close> when it is no integer.\<close>

record download_response =
  dl_code :: int
  dl_size :: "exn + int"
  dl_stream :: remote

text \<open>
  The file system: the content of the files, the paths that
  \<open>open(path, "wb")\<close> refuses with \<open>OSError\<close>, and the room a file has (\<open>None\<close>: no
  limit).  A \<open>write\<close> that would take the file beyond its room raises \<open>OSError\<close>
  and leaves the blocks written before in the file.
\<close>

record filesystem =
  files :: "string \<Rightarrow> byte list option"
  denied :: "string list"
  room :: "nat option"

definition exceeds :: "nat option \<Rightarrow> nat \<Rightarrow> bool" where
  "exceeds limit n = (case limit of None \<Rightarrow> False | Some m \<Rightarrow> m < n)"

text \<open>
  The loop of lines 439 to 449.  \<open>local\<close> is what has been written to the destination,
  \<open>hashed\<close> what has been fed to the hasher, \<open>notes\<close> the notifications sent,
  \<open>limit\<close> the room of the destination.  \<open>remote.read\<close> and \<open>local.write\<close> stand
  outside every \<open>try\<close>: what they raise leaves the loop.  With a negative size the first
  \<open>read\<close> is asked for a negative number of bytes, which the response object of
  Python 3.7 refuses with \<open>ValueError\<close>.
\<close>

function download_loop ::
  "nat option \<Rightarrow> int \<Rightarrow> bool \<Rightarrow> int \<Rightarrow> int \<Rightarrow> remote \<Rightarrow> byte list \<Rightarrow> byte list
     \<Rightarrow> (int \<times> int) list \<Rightarrow> (exn + int) \<times> byte list \<times> byte list \<times> (int \<times> int) list" where
  "download_loop limit sz hashing read chunk r local hashed notes =
     (let chunk' = (if sz - read < chunk then sz - read else chunk)
      in if chunk' < 0 then (Inl ValueError, local, hashed, notes)
         else (case remote_read r (nat chunk') of
                 Inl e \<Rightarrow> (Inl e, local, hashed, notes)
               | Inr (block, r') \<Rightarrow>
                   if block = [] then (Inr read, local, hashed, notes)
                   else if exceeds limit (length local + length block)
                   then (Inl OSError, local, hashed, notes)
                   else download_loop limit sz hashing (read + int (length block)) chunk' r'
                          (local @ block) (if hashing then hashed @ block else hashed)
                          (notes @ [(read + int (length block), sz)])))"
  by pat_completeness auto
termination
  by (relation "measure (\<lambda>(limit, sz, hashing, read, chunk, r, local, hashed, notes).
                           length (pending r))")
     (auto simp: remote_read_def Let_def split: list.splits if_splits)

declare download_loop.simps [simp del]

text \<open>
  \<open>downloadAddonUpdate\<close>.  \<open>opn\<close> is \<open>urlopen\<close> on the download address,
  \<open>sha1_hexdigest\<close> the digest of \<open>hashlib.sha1\<close> as lower-case hexadecimal text,
  \<open>mktemp\<close> the path \<open>tempfile.mktemp\<close> gives.  The result holds the file system after
  the call and the notifications.  \<open>open(destPath, "wb")\<close> (line 433) stands outside
  every \<open>try\<close>; it empties the destination.  The blocks are written as they arrive, and
  the checks of lines 451 to 454 run inside the \<open>with\<close> block after the loop.  An
  exception inside the \<open>with\<close> block closes the file and leaves the call; the file
  keeps what was written.  \<open>AddonDownloadNotifier.notify\<close> does not raise: NVDA's
  \<open>Action\<close> logs what a handler raises.
\<close>

definition downloadAddonUpdate ::
  "(string \<Rightarrow> download_response urlopen) \<Rightarrow> (byte list \<Rightarrow> string) \<Rightarrow> string \<Rightarrow> filesystem
     \<Rightarrow> string \<Rightarrow> string option \<Rightarrow> string option
     \<Rightarrow> (exn + unit) \<times> filesystem \<times> (int \<times> int) list" where
  "downloadAddonUpdate opn sha1_hexdigest mktemp fs durl destPath fileHash =
     (let dest = (case destPath of None \<Rightarrow> mktemp | Some p \<Rightarrow> if p = [] then mktemp else p);
          hashing = (fileHash \<noteq> None \<and> fileHash \<noteq> Some [])
      in case opn durl of
           Raises _ \<Rightarrow> (Inl (RuntimeError ''Could not access download URL''), fs, [])
         | Opened rem \<Rightarrow>
             if dl_code rem \<noteq> 200
             then (Inl (RuntimeErrorFmt ''Download failed with code %d'' (dl_code rem)), fs, [])
             else (case dl_size rem of
                     Inl e \<Rightarrow> (Inl e, fs, [])
                   | Inr sz \<Rightarrow>
                       if dest \<in> set (denied fs) then (Inl OSError, fs, [])
                       else
                       (case download_loop (room fs) sz hashing 0 8192 (dl_stream rem) [] []
                               [(0, sz)] of
                          (Inl e, local, hashed, notes) \<Rightarrow>
                            (Inl e, fs\<lparr>files := (files fs)(dest \<mapsto> local)\<rparr>, notes)
                        | (Inr read, local, hashed, notes) \<Rightarrow>
                            if read < sz
                            then (Inl (RuntimeError ''Content too short''),
                                  fs\<lparr>files := (files fs)(dest \<mapsto> local)\<rparr>, notes)
                            else if hashing \<and> Some (sha1_hexdigest hashed) \<noteq> fileHash
                            then (Inl (RuntimeError ''Content has incorrect file hash''),
                                  fs\<lparr>files := (files fs)(dest \<mapsto> local)\<rparr>, notes)
                            else (Inr (), fs\<lparr>files := (files fs)(dest \<mapsto> local)\<rparr>,
                                  notes @ [(read, sz)]))))"


section \<open>Installing\<close>

datatype AddonInstallStatus =
    AddonInstallSuccess
  | AddonInstallGenericError
  | AddonReadBundleFailed
  | AddonMinVersionNotMet
  | AddonNotTested

record addonBundle =
  bundle_manifest :: manifest

text \<open>
  NVDA's part: opening a bundle (\<open>None\<close> when \<open>AddonBundle\<close> raises), the two checks
  of \<open>addonVersionCheck\<close>, and the installer (\<open>False\<close> when it raises).
\<close>

record installer =
  AddonBundle :: "string \<Rightarrow> addonBundle option"
  hasAddonGotRequiredSupport :: "addonBundle \<Rightarrow> bool"
  isAddonTested :: "addonBundle \<Rightarrow> bool"
  installAddonBundle :: "addonBundle \<Rightarrow> bool"

text \<open>The loop of lines 484 to 488: the first installed add-on of that name is asked
  to be removed unless it already is.\<close>

fun requestRemoveFirst :: "string \<Rightarrow> addon list \<Rightarrow> addon list" where
  "requestRemoveFirst bundleName [] = []"
| "requestRemoveFirst bundleName (a # rest) =
     (if bundleName = manifest_name (addon_manifest a)
      then (if \<not> isPendingRemove a then a\<lparr>isPendingRemove := True\<rparr> else a) # rest
      else a # requestRemoveFirst bundleName rest)"

definition installAddonUpdate ::
  "installer \<Rightarrow> addon list \<Rightarrow> string \<Rightarrow> string \<Rightarrow> AddonInstallStatus \<times> addon list" where
  "installAddonUpdate nvda addons destPath addonName =
     (case AddonBundle nvda destPath of
        None \<Rightarrow> (AddonReadBundleFailed, addons)
      | Some b \<Rightarrow>
          if \<not> hasAddonGotRequiredSupport nvda b then (AddonMinVersionNotMet, addons)
          else if \<not> isAddonTested nvda b then (AddonNotTested, addons)
          else (let addons' = requestRemoveFirst (manifest_name (bundle_manifest b)) addons
                in if installAddonBundle nvda b then (AddonInstallSuccess, addons')
                   else (AddonInstallGenericError, addons')))"

section \<open>Example data\<close>

text \<open>A small host: one catalogue entry, two installed add-ons, no metadata feed.\<close>

definition example_urls :: URLs where
  "example_urls =
     \<lparr>communityAddonsList = ''https://addons.example/get.php?addonslist'',
      metadata = ''https://addons.example/metadata.json'',
      communityFileGetter = ''https://addons.example/get.php?file='',
      communityHostedFile = ''https://addons.example/files/''\<rparr>"

definition example_catalog :: "(string \<times> string) list" where
  "example_catalog = [(''cac'', ''clock-2.0.nvda-addon'')]"

definition example_open_list :: "bool \<Rightarrow> (string \<times> string) list option response urlopen" where
  "example_open_list retry =
     Opened \<lparr>res_code = 200, res_url = ''https://addons.example/get.php?addonslist'',
             res_body = Some example_catalog\<rparr>"

definition example_open_metadata :: "bool \<Rightarrow> (string \<times> json) list option response urlopen" where
  "example_open_metadata retry = Raises OtherIOError"

definition example_open_getter :: "string \<Rightarrow> bool \<Rightarrow> unit response urlopen" where
  "example_open_getter key retry = Raises OtherIOError"

definition example_net :: network where
  "example_net =
     \<lparr>open_communityAddonsList = example_open_list,
      open_metadata = example_open_metadata,
      open_communityFileGetter = example_open_getter\<rparr>"

definition example_state :: updateState where
  "example_state = \<lparr>noUpdates = [], devUpdates = [''remote'']\<rparr>"

definition example_clock :: addon where
  "example_clock =
     \<lparr>addon_name = ''clock'',
      addon_manifest = \<lparr>manifest_name = ''clock'', manifest_summary = ''Clock'',
                         manifest_version = ''1.0'', manifest_updateChannel = Some ''dev''\<rparr>,
      isPendingRemove = False\<rparr>"

definition example_remote :: addon where
  "example_remote =
     \<lparr>addon_name = ''remote'',
      addon_manifest = \<lparr>manifest_name = ''remote'', manifest_summary = ''Remote'',
                         manifest_version = ''2.3'', manifest_updateChannel = None\<rparr>,
      isPendingRemove = False\<rparr>"

definition example_env :: environment where
  "example_env =
     \<lparr>urls = example_urls, net = example_net, state = example_state,
      api = \<lparr>CURRENT = [2022, 1, 0], BACK_COMPAT_TO = [2021, 1, 0]\<rparr>,
      secure = False, availableAddons = [example_clock, example_remote]\<rparr>"



text \<open>The first call for the catalogue fails on the certificate, and so does the
  second after the root certificates were updated.\<close>

definition failing_open_list :: "bool \<Rightarrow> (string \<times> string) list option response urlopen" where
  "failing_open_list retry = Raises (if retry then OtherIOError else CertificateVerifyFailed)"

text \<open>A metadata feed whose record for \<open>clock\<close> lacks the field
  \<open>lastTestedNVDAVersion\<close>.\<close>

definition incomplete_metadata :: "(string \<times> json) list" where
  "incomplete_metadata =
     [(''active'',
       JObj [(''clock'',
              JObj [(''summary'', JStr ''Clock''), (''author'', JStr ''A''),
                    (''minimumNVDAVersion'', JList [JNum 2019, JNum 3, JNum 0])])])]"

definition incomplete_open_metadata ::
  "bool \<Rightarrow> (string \<times> json) list option response urlopen" where
  "incomplete_open_metadata retry =
     Opened \<lparr>res_code = 200, res_url = ''https://addons.example/metadata.json'',
             res_body = Some incomplete_metadata\<rparr>"

text \<open>Downloads of a file declared as four bytes long: one delivers all of them in
  short reads, one ends after three, one delivers three and then raises.
  \<open>toy_digest\<close> stands in for the digest in the examples.  The destination holds two
  bytes before; \<open>locked_files\<close> refuses to open it, \<open>cramped_files\<close> has room for two
  bytes.\<close>

definition full_download :: "string \<Rightarrow> download_response urlopen" where
  "full_download u =
     Opened \<lparr>dl_code = 200, dl_size = Inr 4,
             dl_stream = \<lparr>pending = [1, 2, 3, 4], caps = [0, 1], broken = False\<rparr>\<rparr>"

definition short_download :: "string \<Rightarrow> download_response urlopen" where
  "short_download u =
     Opened \<lparr>dl_code = 200, dl_size = Inr 4,
             dl_stream = \<lparr>pending = [1, 2, 3], caps = [], broken = False\<rparr>\<rparr>"

definition stalled_download :: "string \<Rightarrow> download_response urlopen" where
  "stalled_download u =
     Opened \<lparr>dl_code = 200, dl_size = Inr 4,
             dl_stream = \<lparr>pending = [1, 2, 3], caps = [], broken = True\<rparr>\<rparr>"

definition toy_digest :: "byte list \<Rightarrow> string" where
  "toy_digest bs = replicate (length bs) (CHR ''a'')"

definition old_files :: filesystem where
  "old_files = \<lparr>files = [''out.nvda-addon'' \<mapsto> [9, 9]], denied = [], room = None\<rparr>"

definition locked_files :: filesystem where
  "locked_files = old_files\<lparr>denied := [''out.nvda-addon'']\<rparr>"

definition cramped_files :: filesystem where
  "cramped_files = old_files\<lparr>room := Some 2\<rparr>"

text \<open>A host whose checks reject every bundle.\<close>

definition rejecting_installer :: installer where
  "rejecting_installer =
     \<lparr>AddonBundle = (\<lambda>p. Some \<lparr>bundle_manifest = addon_manifest example_clock\<rparr>),
      hasAddonGotRequiredSupport = (\<lambda>b. False),
      isAddonTested = (\<lambda>b. False),
      installAddonBundle = (\<lambda>b. True)\<rparr>"

section \<open>Properties of the string operations\<close>

lemma greedy_version_suffix:
  "CHR 0x0A \<notin> set v \<Longrightarrow> greedy_version (v @ ''.nvda-addon'') = Some v"
  by (induction v) auto

lemma re_search_version_name:
  "CHR ''-'' \<notin> set nm \<Longrightarrow>
   re_search_version (nm @ CHR ''-'' # rest) =
     (case greedy_version rest of Some v \<Rightarrow> Some v | None \<Rightarrow> re_search_version rest)"
  by (induction nm) auto

lemma split_from_absent:
  "\<not> py_in sep s \<Longrightarrow> split_from sep cur s = [rev cur @ s]"
  by (induction s arbitrary: cur) auto

lemma split_from_nonempty: "split_from sep cur s \<noteq> []"
  by (induction s arbitrary: cur) auto

lemma split_from_slash_last:
  "CHR ''/'' \<notin> set seg \<Longrightarrow> last (split_from ''/'' cur (base @ CHR ''/'' # seg)) = seg"
proof (induction base arbitrary: cur)
  case Nil
  have "\<not> py_in ''/'' seg" using Nil by (induction seg) auto
  then show ?case by (simp add: split_from_absent)
next
  case (Cons c base)
  then show ?case by (cases "c = CHR ''/''") (auto simp: split_from_nonempty)
qed

lemma py_in_append: "py_in sub (sub @ s)"
proof (cases "sub @ s")
  case Nil
  then show ?thesis by simp
next
  case (Cons c cs)
  have "prefix sub (sub @ s)" by simp
  then show ?thesis unfolding Cons by simp
qed

lemma split_from_prefix:
  "sep \<noteq> [] \<Longrightarrow> split_from sep cur (sep @ s) = rev cur # split_from sep [] s"
  by (cases sep) auto

lemma extractVersion_plain:
  assumes "CHR ''-'' \<notin> set nm"
    and "CHR ''/'' \<notin> set nm \<union> set v"
    and "CHR 0x0A \<notin> set v"
    and "\<not> py_in addon v"
  shows "extractVersion addon (base @ ''/'' @ nm @ ''-'' @ v @ ''.nvda-addon'') = Inr (Some v)"
proof -
  let ?seg = "nm @ ''-'' @ v @ ''.nvda-addon''"
  have "CHR ''/'' \<notin> set ?seg" using assms(2) by simp
  then have seg: "last (split_from ''/'' [] (base @ ''/'' @ ?seg)) = ?seg"
    using split_from_slash_last [of ?seg "[]" base] by simp
  have "re_search_version ?seg = Some v"
    using re_search_version_name [OF assms(1), of "v @ ''.nvda-addon''"]
      greedy_version_suffix [OF assms(3)] by simp
  with seg assms(4) show ?thesis by (simp add: extractVersion_def)
qed

lemma extractVersion_embedded:
  assumes "CHR ''-'' \<notin> set nm"
    and "CHR ''/'' \<notin> set nm \<union> set addon \<union> set v"
    and "CHR 0x0A \<notin> set addon \<union> set v"
    and "\<not> py_in addon v"
    and "CHR ''-'' \<notin> set addon"
  shows "extractVersion addon (base @ ''/'' @ nm @ ''-'' @ addon @ ''-'' @ v @ ''.nvda-addon'')
           = Inr (Some v)"
proof -
  let ?v = "addon @ ''-'' @ v"
  let ?seg = "nm @ ''-'' @ ?v @ ''.nvda-addon''"
  have "CHR ''/'' \<notin> set ?seg" using assms(2) by simp
  then have seg: "last (split_from ''/'' [] (base @ ''/'' @ ?seg)) = ?seg"
    using split_from_slash_last [of ?seg "[]" base] by simp
  have nl: "CHR 0x0A \<notin> set ?v" using assms(3) by simp
  have re: "re_search_version ?seg = Some ?v"
    using re_search_version_name [OF assms(1), of "?v @ ''.nvda-addon''"]
      greedy_version_suffix [OF nl] by simp
  have ne: "addon \<noteq> []" using assms(4) by (cases v) auto
  have "\<not> py_in addon (CHR ''-'' # v)"
    using assms(4,5) ne by (auto simp: prefix_Cons)
  then have "split_from addon [] ?v = [[], CHR ''-'' # v]"
    using split_from_prefix [OF ne, of "[]" "''-'' @ v"]
      split_from_absent [of addon "CHR ''-'' # v" "[]"]
    by simp
  with seg re ne show ?thesis
    by (simp add: extractVersion_def py_split_def py_in_append)
qed

section \<open>Version extraction\<close>

text \<open>
  C1, as the code has it.  Let the last path segment of the address be
  \<open>nm-v.nvda-addon\<close>, where \<open>nm\<close> holds no hyphen, \<open>v\<close> holds no line feed and the
  add-on's name does not occur in \<open>v\<close>.  Then the extracted version is exactly \<open>v\<close>.
  If the segment is \<open>nm-addon-v.nvda-addon\<close> with the add-on's own name (free of
  hyphens and line feeds) in front of the version, the name and the hyphen after it are
  stripped and the extracted version is again \<open>v\<close>; with \<open>nm = addon\<close> this is the
  segment \<open>myext-myext-1.2.3.nvda-addon\<close>.
\<close>

theorem extractVersion_clean_segment:
  assumes "CHR ''-'' \<notin> set nm"
    and "CHR ''/'' \<notin> set nm \<union> set v"
    and "CHR 0x0A \<notin> set v"
    and "\<not> py_in addon v"
  shows "extractVersion addon (base @ ''/'' @ nm @ ''-'' @ v @ ''.nvda-addon'') = Inr (Some v) \<and>
         (CHR ''-'' \<notin> set addon \<and> CHR ''/'' \<notin> set addon \<and> CHR 0x0A \<notin> set addon \<longrightarrow>
          extractVersion addon (base @ ''/'' @ nm @ ''-'' @ addon @ ''-'' @ v @ ''.nvda-addon'')
            = Inr (Some v))"
  using extractVersion_plain [OF assms, of base]
    extractVersion_embedded [OF assms(1) _ _ assms(4), of base] assms(2,3)
  by auto

theorem extractVersion_clean_segment_witness:
  "extractVersion ''myext'' ''https://host/files/myext-1.2.3.nvda-addon'' = Inr (Some ''1.2.3'') \<and>
   extractVersion ''myext'' ''https://host/files/myext-myext-1.2.3.nvda-addon''
     = Inr (Some ''1.2.3'')"
  using extractVersion_clean_segment
          [of "''myext''" "''1.2.3''" "''myext''" "''https://host/files''"]
  by simp

text \<open>
  The claim as stated fails on a name with a hyphen, where the match starts at the
  first hyphen of the segment, and on a version that holds the add-on's name, where the
  text after the first occurrence of the name is kept without its first character.
\<close>

theorem extractVersion_counterexample:
  "extractVersion ''my-ext'' ''https://host/files/my-ext-1.2.3.nvda-addon''
     = Inr (Some ''ext-1.2.3'') \<and>
   extractVersion ''myext'' ''https://host/files/myext-1.2.3-myext.nvda-addon''
     = Inr (Some [])"
  by (simp add: extractVersion_def py_split_def)

section \<open>The gate\<close>

text \<open>
  C3.  For an add-on in the set \<open>devUpdates\<close> the gate answers yes whatever the
  metadata is.  For metadata whose two version fields are lists of three integers, and
  host constants of three integers, the gate answers yes if and only if the add-on is
  in \<open>devUpdates\<close>, or the minimum version is at most the current version and the last
  tested version is at least the back-compatibility floor, both in the lexicographic
  order of triples.
\<close>

theorem addonCompatibleAccordingToMetadata_iff:
  assumes "py_getitem md ''minimumNVDAVersion'' = Inr (JList [JNum a, JNum b, JNum c])"
    and "py_getitem md ''lastTestedNVDAVersion'' = Inr (JList [JNum d, JNum e, JNum f])"
    and "CURRENT apiv = [x, y, z]"
    and "BACK_COMPAT_TO apiv = [p, q, r]"
  shows "(addon \<in> set (devUpdates st) \<longrightarrow>
            addonCompatibleAccordingToMetadata st apiv addon anyMetadata = Inr True) \<and>
         addonCompatibleAccordingToMetadata st apiv addon md =
           Inr (addon \<in> set (devUpdates st) \<or>
                (a < x \<or> a = x \<and> (b < y \<or> b = y \<and> c \<le> z)) \<and>
                (p < d \<or> p = d \<and> (q < e \<or> q = e \<and> r \<le> f)))"
proof -
  have le: "tuple_le [JNum a, JNum b, JNum c] [x, y, z]
              = Inr (a < x \<or> a = x \<and> (b < y \<or> b = y \<and> c \<le> z))"
    by auto
  have ge: "tuple_ge [JNum d, JNum e, JNum f] [p, q, r]
              = Inr (p < d \<or> p = d \<and> (q < e \<or> q = e \<and> r \<le> f))"
    by auto
  have "tuple_le [JNum a, JNum b, JNum c] (CURRENT apiv)
          = Inr (a < x \<or> a = x \<and> (b < y \<or> b = y \<and> c \<le> z))"
    and "tuple_ge [JNum d, JNum e, JNum f] (BACK_COMPAT_TO apiv)
          = Inr (p < d \<or> p = d \<and> (q < e \<or> q = e \<and> r \<le> f))"
    using le ge assms(3,4) by simp_all
  then show ?thesis
    by (simp add: addonCompatibleAccordingToMetadata_def assms(1,2) split: bool.splits)
qed

theorem addonCompatibleAccordingToMetadata_iff_witness:
  "addonCompatibleAccordingToMetadata \<lparr>noUpdates = [], devUpdates = [''clock'']\<rparr>
     \<lparr>CURRENT = [2022, 1, 0], BACK_COMPAT_TO = [2021, 1, 0]\<rparr> ''clock'' JNull = Inr True \<and>
   addonCompatibleAccordingToMetadata \<lparr>noUpdates = [], devUpdates = [''clock'']\<rparr>
     \<lparr>CURRENT = [2022, 1, 0], BACK_COMPAT_TO = [2021, 1, 0]\<rparr> ''remote''
     (JObj [(''minimumNVDAVersion'', JList [JNum 2019, JNum 3, JNum 0]),
            (''lastTestedNVDAVersion'', JList [JNum 2020, JNum 4, JNum 0])]) = Inr False"
  using addonCompatibleAccordingToMetadata_iff
          [of "JObj [(''minimumNVDAVersion'', JList [JNum 2019, JNum 3, JNum 0]),
                     (''lastTestedNVDAVersion'', JList [JNum 2020, JNum 4, JNum 0])]"
              2019 3 0 2020 4 0 "\<lparr>CURRENT = [2022, 1, 0], BACK_COMPAT_TO = [2021, 1, 0]\<rparr>"
              2022 1 0 2021 1 0 "''clock''" "\<lparr>noUpdates = [], devUpdates = [''clock'']\<rparr>" JNull]
    addonCompatibleAccordingToMetadata_iff
          [of "JObj [(''minimumNVDAVersion'', JList [JNum 2019, JNum 3, JNum 0]),
                     (''lastTestedNVDAVersion'', JList [JNum 2020, JNum 4, JNum 0])]"
              2019 3 0 2020 4 0 "\<lparr>CURRENT = [2022, 1, 0], BACK_COMPAT_TO = [2021, 1, 0]\<rparr>"
              2022 1 0 2021 1 0 "''remote''" "\<lparr>noUpdates = [], devUpdates = [''clock'']\<rparr>" JNull]
  by simp

section \<open>The install gate\<close>

text \<open>
  C8.  The status of \<open>installAddonUpdate\<close> is decided by the first check that fails, in
  the order bundle read, minimum version, not tested; a bundle that fails the minimum
  version check is reported as \<open>AddonMinVersionNotMet\<close> whatever the tested check
  says.  When every check passes, an installer that raises gives
  \<open>AddonInstallGenericError\<close> and one that returns gives \<open>AddonInstallSuccess\<close>.
\<close>

theorem installAddonUpdate_status_order:
  "fst (installAddonUpdate nvda addons destPath addonName) =
     (case AddonBundle nvda destPath of
        None \<Rightarrow> AddonReadBundleFailed
      | Some b \<Rightarrow>
          if \<not> hasAddonGotRequiredSupport nvda b then AddonMinVersionNotMet
          else if \<not> isAddonTested nvda b then AddonNotTested
          else if installAddonBundle nvda b then AddonInstallSuccess
          else AddonInstallGenericError)"
  by (simp add: installAddonUpdate_def Let_def split: option.splits)

theorem installAddonUpdate_status_order_witness:
  "fst (installAddonUpdate rejecting_installer [example_clock] ''out.nvda-addon'' ''clock'')
     = AddonMinVersionNotMet"
  using installAddonUpdate_status_order [of rejecting_installer "[example_clock]"
          "''out.nvda-addon''" "''clock''"]
  by (simp add: rejecting_installer_def)

section \<open>Secure mode and channels\<close>

text \<open>
  C9.  With the secure flag set \<open>checkForAddonUpdates\<close> returns \<open>None\<close> and does
  nothing to the outside: no address is opened, for the catalogue, for the metadata or
  for any add-on.
\<close>

theorem checkForAddonUpdates_secure:
  "checkForAddonUpdates (env\<lparr>secure := True\<rparr>) = (Inr None, [])"
  by (simp add: checkForAddonUpdates_def)

theorem checkForAddonUpdates_secure_witness:
  "checkForAddonUpdates (example_env\<lparr>secure := True\<rparr>) = (Inr None, [])"
  using checkForAddonUpdates_secure [of example_env] by simp

lemma updateChannelFor_dev:
  "(updateChannelFor st nm ch = Some ''dev'') = (nm \<in> set (devUpdates st))"
  by (auto simp: updateChannelFor_def Let_def)

lemma set_dict_set: "set (dict_set k v d) \<subseteq> insert (k, v) (set d)"
  by (induction d) (auto split: if_splits)

lemma prepareAddons_channel:
  assumes "\<forall>(nm, mi) \<in> set cur. (mi_channel mi = Some ''dev'') = (nm \<in> set (devUpdates st))"
  shows "\<forall>(nm, mi) \<in> set (fst (prepareAddons st addons cur sums)).
           (mi_channel mi = Some ''dev'') = (nm \<in> set (devUpdates st))"
  using assms
proof (induction addons arbitrary: cur sums)
  case Nil
  then show ?case by simp
next
  case (Cons a addons)
  let ?mi = "\<lparr>mi_summary = manifest_summary (addon_manifest a),
                 mi_version = manifest_version (addon_manifest a),
                 mi_channel = updateChannelFor st (addon_name a)
                                (manifest_updateChannel (addon_manifest a))\<rparr>"
  have "\<forall>(nm, mi) \<in> set (dict_set (addon_name a) ?mi cur).
          (mi_channel mi = Some ''dev'') = (nm \<in> set (devUpdates st))"
    using Cons.prems set_dict_set [of "addon_name a" ?mi cur]
    by (auto simp: updateChannelFor_dev)
  from Cons.IH [OF this] Cons.IH [OF Cons.prems] show ?case by simp
qed

text \<open>
  C10.  Every add-on that \<open>checkForAddonUpdates\<close> prepares for resolution has the
  channel \<open>dev\<close> if and only if its name is in \<open>devUpdates\<close>: a \<open>dev\<close> of the
  manifest is reset to the default channel (\<open>None\<close>) for a name that is not in the set,
  and any channel of the manifest becomes \<open>dev\<close> for a name that is.
\<close>

theorem prepared_channel_dev_iff:
  "(\<forall>(nm, mi) \<in> set (fst (prepareAddons st addons [] [])).
      (mi_channel mi = Some ''dev'') = (nm \<in> set (devUpdates st))) \<and>
   (nm \<notin> set (devUpdates st) \<longrightarrow> updateChannelFor st nm (Some ''dev'') = None) \<and>
   (nm \<in> set (devUpdates st) \<longrightarrow> updateChannelFor st nm ch = Some ''dev'')"
  using prepareAddons_channel [of "[]" st addons "[]"]
  by (auto simp: updateChannelFor_def Let_def)

theorem prepared_channel_dev_iff_witness:
  "map (\<lambda>(nm, mi). (nm, mi_channel mi))
     (fst (prepareAddons example_state [example_clock, example_remote] [] []))
     = [(''clock'', None), (''remote'', Some ''dev'')] \<and>
   updateChannelFor example_state ''clock'' (Some ''dev'') = None \<and>
   updateChannelFor example_state ''remote'' (Some ''beta'') = Some ''dev''"
proof -
  have "map (\<lambda>(nm, mi). (nm, mi_channel mi))
     (fst (prepareAddons example_state [example_clock, example_remote] [] []))
     = [(''clock'', None), (''remote'', Some ''dev'')]"
    by code_simp
  moreover have "updateChannelFor example_state ''clock'' (Some ''dev'') = None"
    using prepared_channel_dev_iff [of example_state "[example_clock, example_remote]" "''clock''"]
    by (simp add: example_state_def)
  moreover have "updateChannelFor example_state ''remote'' (Some ''beta'') = Some ''dev''"
    using prepared_channel_dev_iff [of example_state "[example_clock, example_remote]" "''remote''"
            "Some ''beta''"]
    by (simp add: example_state_def)
  ultimately show ?thesis by simp
qed

section \<open>Update records\<close>






















section \<open>Failure of the catalogue fetch\<close>

lemma fetchAddonInfo_no_catalog:
  "fetchAddonInfo env [] addon mi addonsData \<noteq> (Inr (Some i), ev)"
  unfolding fetchAddonInfo_def resolveAddonUrl_def
  by (auto split: sum.splits option.splits prod.splits bool.splits json.splits)

lemma fetchAll_no_catalog: "fst (fetchAll env [] addonsData cur info) = info"
proof (induction cur arbitrary: info)
  case Nil
  then show ?case by simp
next
  case (Cons c cur)
  obtain addon mi where c: "c = (addon, mi)" by (cases c)
  obtain r ev where f: "fetchAddonInfo env [] addon mi addonsData = (r, ev)"
    by (cases "fetchAddonInfo env [] addon mi addonsData")
  have "\<nexists>i. r = Inr (Some i)" using f fetchAddonInfo_no_catalog by blast
  with Cons.IH [of info] show ?case
    by (cases r) (auto simp: c f split: prod.splits option.splits)
qed

text \<open>
  C4, at the input where the code departs from it: the first call for the catalogue
  fails on the certificate and the call after the update of the root certificates
  fails too.  The exception of the second call leaves the thread, \<open>results\<close> has no key
  \<open>error\<close>, and the cycle ends with \<open>None\<close>, the value of a cycle that found no
  update, instead of an error.
\<close>

theorem catalog_retry_failure_unreported:
  "fst (checkForAddonUpdates
          (env\<lparr>secure := False,
               net := (net env)\<lparr>open_communityAddonsList := failing_open_list\<rparr>\<rparr>)) = Inr None"
proof -
  let ?env = "env\<lparr>secure := False,
               net := (net env)\<lparr>open_communityAddonsList := failing_open_list\<rparr>\<rparr>"
  have r: "fst (currentCommunityAddons ?env []) = []"
    by (simp add: currentCommunityAddons_def try_urlopen_def failing_open_list_def)
  have empty_info: "\<exists>ev. checkForAddonUpdate ?env cur = (Inr [], ev)" for cur
  proof -
    obtain ev1 where a: "currentCommunityAddons ?env [] = ([], ev1)"
      using r by (cases "currentCommunityAddons ?env []") auto
    obtain ad ev2 where m: "currentCommunityAddonsMetadata ?env [] = (ad, ev2)"
      by (cases "currentCommunityAddonsMetadata ?env []")
    obtain info ev3 where f: "fetchAll ?env [] ad cur [] = (info, ev3)"
      by (cases "fetchAll ?env [] ad cur []")
    have "info = []" using fetchAll_no_catalog [of ?env ad cur "[]"] f by simp
    then show ?thesis by (simp add: checkForAddonUpdate_def a m f)
  qed
  obtain cur sums where
    p: "prepareAddons (state ?env) (availableAddons ?env) [] [] = (cur, sums)"
    by (cases "prepareAddons (state ?env) (availableAddons ?env) [] []")
  obtain ev where c: "checkForAddonUpdate ?env cur = (Inr [], ev)"
    using empty_info [of cur] by blast
  show ?thesis
    using p by (simp add: checkForAddonUpdates_def c)
qed

text \<open>The other failure of the first call is reported.\<close>

lemma catalog_failure_reported:
  assumes "open_communityAddonsList (net env) False = Raises OtherIOError" and "\<not> secure env"
  shows "fst (checkForAddonUpdates env)
           = Inl (RuntimeError ''Cannot check for community add-on updates'')"
proof -
  obtain ev where "currentCommunityAddons env [] = ([(''error'', CTrue)], ev)"
    using assms(1) by (simp add: currentCommunityAddons_def try_urlopen_def)
  then have e: "checkForAddonUpdate env cur =
                 (Inl (RuntimeError ''Failed to retrieve community add-ons''), ev)" for cur
    by (simp add: checkForAddonUpdate_def)
  obtain cur sums where p: "prepareAddons (state env) (availableAddons env) [] [] = (cur, sums)"
    by (cases "prepareAddons (state env) (availableAddons env) [] []")
  show ?thesis
    using assms(2) by (simp add: checkForAddonUpdates_def p e)
qed

section \<open>Metadata that cannot be used\<close>

text \<open>What holds: without a feed the metadata is empty, the cycle raises only for the
  catalogue, and a record that is missing or for which the validation answers
  \<open>False\<close> leaves the add-on to the built-in key map.\<close>

lemma metadata_feed_unavailable:
  assumes "open_metadata (net env) False = Raises x"
    and "x = CertificateVerifyFailed \<longrightarrow> (\<exists>y. open_metadata (net env) True = Raises y)"
  shows "fst (currentCommunityAddonsMetadata env []) = []"
  using assms
  by (cases x) (auto simp: currentCommunityAddonsMetadata_def try_urlopen_def)

lemma checkForAddonUpdate_raises_iff:
  "(\<exists>e. fst (checkForAddonUpdate env cur) = Inl e) =
     (map_of (fst (currentCommunityAddons env [])) ''error'' \<noteq> None)"
  by (auto simp: checkForAddonUpdate_def split: prod.splits)

lemma addonKeyFor_untrusted:
  "addonKeyFor md False addon None = Inr (map_option JStr (map_of names2urls addon))"
  by (cases "map_of names2urls addon") (simp_all add: addonKeyFor_def)

lemma fetchAddonInfo_untrusted_metadata:
  assumes "addonMetadataFor addonsData addon = Inr (md, False)"
  shows "fetchAddonInfo env results addon mi addonsData = fetchAddonInfo env results addon mi []"
  using assms
  by (simp add: fetchAddonInfo_def resolveAddonUrl_def addonKeyFor_def addonMetadataFor_def)

text \<open>What does not: the validation reads every required field with a subscript, so
  a record without one of them raises.\<close>

lemma validateAddonMetadata_missing_field:
  assumes "f \<in> {''summary'', ''author'', ''minimumNVDAVersion'', ''lastTestedNVDAVersion''}"
    and "map_of kvs f = None"
  shows "validateAddonMetadata (JObj kvs) = Inl KeyError"
  using assms
  by (auto simp: validateAddonMetadata_def metadataFieldTypes_def split: option.splits sum.splits)

text \<open>
  C5, at the input where the code departs from it.  The catalogue offers version 2.0 of
  \<open>clock\<close>, version 1.0 is installed, and \<open>clock\<close> is in the built-in key map.  With
  no metadata the update is found.  With a metadata record for \<open>clock\<close> that lacks
  \<open>lastTestedNVDAVersion\<close> the validation raises \<open>KeyError\<close>, the exception leaves
  \<open>fetchAddonInfo\<close> before the built-in key map is consulted, and the cycle ends
  without the update.
\<close>

theorem incomplete_metadata_record_ends_resolution:
  "fst (fetchAddonInfo example_env [(''cac'', CStr ''clock-2.0.nvda-addon'')] ''clock''
          \<lparr>mi_summary = ''Clock'', mi_version = ''1.0'', mi_channel = None\<rparr> incomplete_metadata)
     = Inl KeyError \<and>
   fst (fetchAddonInfo example_env [(''cac'', CStr ''clock-2.0.nvda-addon'')] ''clock''
          \<lparr>mi_summary = ''Clock'', mi_version = ''1.0'', mi_channel = None\<rparr> [])
     = Inr (Some \<lparr>info_curVersion = ''1.0'', info_version = ''2.0'',
                   info_path = ''https://addons.example/files/clock-2.0.nvda-addon''\<rparr>) \<and>
   fst (checkForAddonUpdates
          (example_env\<lparr>net := example_net\<lparr>open_metadata := incomplete_open_metadata\<rparr>\<rparr>))
     = Inr None \<and>
   fst (checkForAddonUpdates example_env)
     = Inr (Some [\<lparr>name = ''clock'', summary = ''Clock'', version = ''2.0'',
                    installedVersion = ''1.0'',
                    url = ''https://addons.example/files/clock-2.0.nvda-addon'', hash = None,
                    minimumNVDAVersion = [0, 0, 0], lastTestedNVDAVersion = [0, 0, 0],
                    updateChannel = None\<rparr>])"
  by code_simp

section \<open>The download\<close>

lemma remote_read_cases:
  "(remote_read r n = Inl ReadError \<and> 0 < n \<and> pending r = [] \<and> broken r) \<or>
   (\<not> (0 < n \<and> pending r = [] \<and> broken r) \<and>
    (\<exists>k r'. k \<le> n \<and> (0 < n \<longrightarrow> 0 < k) \<and>
       remote_read r n = Inr (take k (pending r), r') \<and>
       pending r' = drop k (pending r) \<and> broken r' = broken r))"
proof (cases "0 < n \<and> pending r = [] \<and> broken r")
  case True
  then show ?thesis by (simp add: remote_read_def)
next
  case False
  show ?thesis
  proof (cases "caps r")
    case Nil
    with False show ?thesis
      by (intro disjI2 conjI exI [of _ n]) (auto simp: remote_read_def Let_def)
  next
    case (Cons c cs)
    with False show ?thesis
      by (intro disjI2 conjI exI [of _ "min n (Suc c)"]) (auto simp: remote_read_def Let_def)
  qed
qed

lemma take_split:
  assumes "k \<le> n"
  shows "take k xs @ take (n - length (take k xs)) (drop k xs) = take n xs"
proof (cases "k \<le> length xs")
  case True
  then have "length (take k xs) = k" by simp
  then show ?thesis using assms
    by (metis add_diff_inverse_nat linorder_not_le take_add)
next
  case False
  then show ?thesis using assms by simp
qed


lemma exceeds_mono: "exceeds limit a \<Longrightarrow> a \<le> b \<Longrightarrow> exceeds limit b"
  by (auto simp: exceeds_def split: option.splits)

lemma download_loop_result:
  assumes "0 \<le> read" and "read \<le> sz" and "0 \<le> chunk" and "read < sz \<longrightarrow> 0 < chunk"
    and "\<not> exceeds limit (length local)"
  shows "\<exists>local' hashed' ns'.
           download_loop limit sz hashing read chunk r local hashed ns =
             ((if exceeds limit (length local + length (take (nat (sz - read)) (pending r)))
               then Inl OSError
               else if broken r \<and> int (length (pending r)) < sz - read then Inl ReadError
               else Inr (read + int (length (take (nat (sz - read)) (pending r))))),
              local', hashed', ns') \<and>
           (\<not> exceeds limit (length local + length (take (nat (sz - read)) (pending r))) \<longrightarrow>
            local' = local @ take (nat (sz - read)) (pending r) \<and>
            hashed' = (if hashing then hashed @ take (nat (sz - read)) (pending r) else hashed))"
  using assms
proof (induction limit sz hashing read chunk r local hashed ns rule: download_loop.induct)
  case (1 limit sz hashing read chunk r local hashed ns)
  define chunk' where "chunk' = (if sz - read < chunk then sz - read else chunk)"
  let ?got = "take (nat (sz - read)) (pending r)"
  let ?over = "\<lambda>loc g. exceeds limit (length loc + length (g::byte list))"
  have c0: "0 \<le> chunk'" and cle: "chunk' \<le> sz - read" and cpos: "read < sz \<Longrightarrow> 0 < chunk'"
    using "1.prems" by (auto simp: chunk'_def)
  have fits: "\<not> ?over local []"
    using "1.prems"(5) by simp
  from remote_read_cases [of r "nat chunk'"]
  show ?case
  proof (elim disjE conjE exE)
    assume rr: "remote_read r (nat chunk') = Inl ReadError"
      and n: "0 < nat chunk'" and e: "pending r = []" and b: "broken r"
    have lt: "read < sz" using n cle by simp
    have "download_loop limit sz hashing read chunk r local hashed ns
            = (Inl ReadError, local, hashed, ns)"
      using c0 rr by (subst download_loop.simps) (simp add: chunk'_def [symmetric])
    then show ?thesis using fits e b lt by simp
  next
    fix k r'
    assume nb: "\<not> (0 < nat chunk' \<and> pending r = [] \<and> broken r)"
      and k: "k \<le> nat chunk'" "0 < nat chunk' \<longrightarrow> 0 < k"
      and rr: "remote_read r (nat chunk') = Inr (take k (pending r), r')"
      and p': "pending r' = drop k (pending r)" and b': "broken r' = broken r"
    define block where "block = take k (pending r)"
    show ?thesis
    proof (cases "block = []")
      case True
      have e: "?got = []"
      proof (cases "read < sz")
        case True
        then have "0 < k" using k(2) cpos by simp
        with \<open>block = []\<close> show ?thesis by (simp add: block_def)
      next
        case False
        then show ?thesis using "1.prems" by simp
      qed
      have nocut: "\<not> (broken r \<and> int (length (pending r)) < sz - read)"
      proof (cases "read < sz")
        case True
        then have "0 < k" "0 < nat chunk'" using k(2) cpos by simp_all
        with \<open>block = []\<close> have "pending r = []" by (simp add: block_def)
        with nb \<open>0 < nat chunk'\<close> show ?thesis by simp
      next
        case False
        then show ?thesis by simp
      qed
      have "download_loop limit sz hashing read chunk r local hashed ns
              = (Inr read, local, hashed, ns)"
        using c0 rr True
        by (subst download_loop.simps) (simp add: chunk'_def [symmetric] block_def)
      then show ?thesis using fits nocut unfolding e by simp
    next
      case False
      let ?read' = "read + int (length block)"
      have len: "int (length block) \<le> chunk'" using k(1) c0 by (simp add: block_def)
      have kn: "k \<le> nat (sz - read)" using k(1) cle by simp
      have n': "nat (sz - ?read') = nat (sz - read) - length block"
        using "1.prems" by simp
      let ?got' = "take (nat (sz - ?read')) (pending r')"
      have tk: "block @ ?got' = ?got"
        using take_split [OF kn, of "pending r"] p' n' by (simp add: block_def)
      then have ln: "length block + length ?got' = length ?got"
        by (metis length_append)
      show ?thesis
      proof (cases "?over local block")
        case True
        have "length local + length block \<le> length local + length ?got"
          using ln by linarith
        with True have "?over local ?got" by (rule exceeds_mono)
        moreover have "download_loop limit sz hashing read chunk r local hashed ns
              = (Inl OSError, local, hashed, ns)"
          using c0 rr False True
          by (subst download_loop.simps) (simp add: chunk'_def [symmetric] block_def)
        ultimately show ?thesis by simp
      next
        case nover: False
        have p1: "0 \<le> ?read'" "?read' \<le> sz" "0 \<le> chunk'" "?read' < sz \<longrightarrow> 0 < chunk'"
          using "1.prems" len cle c0 cpos by auto
        have p5: "\<not> exceeds limit (length (local @ block))"
          using nover by simp
        have rr': "remote_read r (nat chunk') = Inr (block, r')"
          using rr by (simp add: block_def)
        have nneg: "\<not> chunk' < 0" using c0 by simp
        have step: "download_loop limit sz hashing read chunk r local hashed ns =
                      download_loop limit sz hashing ?read' chunk' r' (local @ block)
                        (if hashing then hashed @ block else hashed) (ns @ [(?read', sz)])"
          using c0 rr False nover
          by (subst download_loop.simps) (simp add: chunk'_def [symmetric] block_def)
        have over_eq: "?over (local @ block) ?got' = ?over local ?got"
          using ln by (simp add: add.assoc)
        have cut_eq: "(broken r' \<and> int (length (pending r')) < sz - ?read') =
                      (broken r \<and> int (length (pending r)) < sz - read)"
          unfolding b' p' block_def by auto
        have read_eq: "?read' + int (length ?got') = read + int (length ?got)"
          using ln by simp
        from "1.IH" [OF chunk'_def nneg rr' refl False nover p1 p5]
        obtain local' hashed' ns' where
          ih: "download_loop limit sz hashing ?read' chunk' r' (local @ block)
                 (if hashing then hashed @ block else hashed) (ns @ [(?read', sz)]) =
               ((if ?over (local @ block) ?got' then Inl OSError
                 else if broken r' \<and> int (length (pending r')) < sz - ?read' then Inl ReadError
                 else Inr (?read' + int (length ?got'))),
                local', hashed', ns')"
          and ok: "\<not> ?over (local @ block) ?got' \<longrightarrow>
                     local' = (local @ block) @ ?got' \<and>
                     hashed' = (if hashing then (if hashing then hashed @ block else hashed) @ ?got'
                                else (if hashing then hashed @ block else hashed))"
          by auto
        have a: "download_loop limit sz hashing read chunk r local hashed ns =
               ((if ?over local ?got then Inl OSError
                 else if broken r \<and> int (length (pending r)) < sz - read then Inl ReadError
                 else Inr (read + int (length ?got))),
                local', hashed', ns')"
          unfolding step ih over_eq cut_eq read_eq ..
        have b: "\<not> ?over local ?got \<longrightarrow>
                   local' = local @ ?got \<and>
                   hashed' = (if hashing then hashed @ ?got else hashed)"
        proof
          assume "\<not> ?over local ?got"
          then have "local' = local @ (block @ ?got')"
            and "hashed' = (if hashing then hashed @ (block @ ?got') else hashed)"
            using ok over_eq by simp_all
          then show "local' = local @ ?got \<and>
                     hashed' = (if hashing then hashed @ ?got else hashed)"
            unfolding tk by simp
        qed
        from a b show ?thesis by blast
      qed
    qed
  qed
qed

lemma download_loop_negative:
  "sz < 0 \<Longrightarrow>
   download_loop limit sz hashing 0 8192 r local hashed ns = (Inl ValueError, local, hashed, ns)"
  by (subst download_loop.simps) simp

lemma downloadAddonUpdate_result:
  assumes "opn u = Opened rem" and "dl_code rem = 200" and "dl_size rem = Inr sz" and "0 \<le> sz"
    and "(case destPath of None \<Rightarrow> tmp | Some p \<Rightarrow> if p = [] then tmp else p) \<notin> set (denied fs)"
  shows "\<exists>fs' ns.
           downloadAddonUpdate opn H tmp fs u destPath fileHash =
             ((if exceeds (room fs) (length (take (nat sz) (pending (dl_stream rem))))
               then Inl OSError
               else if int (length (pending (dl_stream rem))) < sz
               then (if broken (dl_stream rem) then Inl ReadError
                     else Inl (RuntimeError ''Content too short''))
               else if fileHash \<noteq> None \<and> fileHash \<noteq> Some [] \<and>
                       Some (H (take (nat sz) (pending (dl_stream rem)))) \<noteq> fileHash
               then Inl (RuntimeError ''Content has incorrect file hash'')
               else Inr ()),
              fs', ns) \<and>
           (\<not> exceeds (room fs) (length (take (nat sz) (pending (dl_stream rem)))) \<longrightarrow>
            files fs' (case destPath of None \<Rightarrow> tmp | Some p \<Rightarrow> if p = [] then tmp else p)
              = Some (take (nat sz) (pending (dl_stream rem))))"
proof -
  let ?hashing = "fileHash \<noteq> None \<and> fileHash \<noteq> Some []"
  let ?got = "take (nat sz) (pending (dl_stream rem))"
  let ?dest = "case destPath of None \<Rightarrow> tmp | Some p \<Rightarrow> if p = [] then tmp else p"
  have "\<not> exceeds (room fs) (length ([] :: byte list))"
    by (simp add: exceeds_def split: option.splits)
  from download_loop_result [of 0 sz 8192 "room fs" "[]" ?hashing "dl_stream rem" "[]" "[(0, sz)]",
      OF _ assms(4) _ _ this]
  obtain local' hashed' ns' where
    l: "download_loop (room fs) sz ?hashing 0 8192 (dl_stream rem) [] [] [(0, sz)] =
         ((if exceeds (room fs) (length ?got) then Inl OSError
           else if broken (dl_stream rem) \<and> int (length (pending (dl_stream rem))) < sz
           then Inl ReadError
           else Inr (int (length ?got))),
          local', hashed', ns')"
    and ok: "\<not> exceeds (room fs) (length ?got) \<longrightarrow>
               local' = ?got \<and> hashed' = (if ?hashing then ?got else [])"
    by auto
  have short: "(int (length ?got) < sz) = (int (length (pending (dl_stream rem))) < sz)"
    using assms(4) by auto
  show ?thesis
  proof (cases "exceeds (room fs) (length ?got)")
    case True
    then show ?thesis
      using assms(1,2,3,5) l by (simp add: downloadAddonUpdate_def Let_def)
  next
    case False
    with ok have lh: "local' = ?got" "hashed' = (if ?hashing then ?got else [])" by simp_all
    show ?thesis
    proof (cases "broken (dl_stream rem) \<and> int (length (pending (dl_stream rem))) < sz")
      case True
      then show ?thesis
        using assms(1,2,3,5) l False lh by (simp add: downloadAddonUpdate_def Let_def)
    next
      case nb: False
      then show ?thesis
        using assms(1,2,3,4,5) l False lh short
        by (auto simp: downloadAddonUpdate_def Let_def)
    qed
  qed
qed

text \<open>
  C6, as the code has it.  The call ends in an error, a different one each, when the
  address cannot be opened, when the status is not 200, when fewer bytes arrive than
  the declared length, and when a hash was given (a non-empty string) and the digest of
  the bytes received is a different string, which is reported also when all declared
  bytes arrived.  It also ends in an error when the destination cannot be opened for
  writing, when a write to it raises and when a read of the response raises: the
  exception of that operation leaves the call as it is.  With a declared length that
  is a natural number there is no other error: in every other case the call returns.
  A header that is missing, no integer or negative gives the error of the conversion
  or of the read.
\<close>

theorem downloadAddonUpdate_errors:
  "fst (downloadAddonUpdate opn H tmp fs u destPath fileHash) =
     (case opn u of
        Raises x \<Rightarrow> Inl (RuntimeError ''Could not access download URL'')
      | Opened rem \<Rightarrow>
          if dl_code rem \<noteq> 200
          then Inl (RuntimeErrorFmt ''Download failed with code %d'' (dl_code rem))
          else (case dl_size rem of
                  Inl e \<Rightarrow> Inl e
                | Inr sz \<Rightarrow>
                    if (case destPath of None \<Rightarrow> tmp | Some p \<Rightarrow> if p = [] then tmp else p)
                         \<in> set (denied fs)
                    then Inl OSError
                    else if sz < 0 then Inl ValueError
                    else if exceeds (room fs) (length (take (nat sz) (pending (dl_stream rem))))
                    then Inl OSError
                    else if int (length (pending (dl_stream rem))) < sz
                    then (if broken (dl_stream rem) then Inl ReadError
                          else Inl (RuntimeError ''Content too short''))
                    else if fileHash \<noteq> None \<and> fileHash \<noteq> Some [] \<and>
                            Some (H (take (nat sz) (pending (dl_stream rem)))) \<noteq> fileHash
                    then Inl (RuntimeError ''Content has incorrect file hash'')
                    else Inr ()))"
proof (cases "opn u")
  case (Raises x)
  then show ?thesis by (simp add: downloadAddonUpdate_def)
next
  case (Opened rem)
  show ?thesis
  proof (cases "dl_code rem = 200")
    case False
    with Opened show ?thesis by (simp add: downloadAddonUpdate_def)
  next
    case True
    show ?thesis
    proof (cases "dl_size rem")
      case (Inl e)
      with Opened True show ?thesis by (simp add: downloadAddonUpdate_def)
    next
      case (Inr sz)
      let ?dest = "case destPath of None \<Rightarrow> tmp | Some p \<Rightarrow> if p = [] then tmp else p"
      show ?thesis
      proof (cases "?dest \<in> set (denied fs)")
        case den: True
        with Opened True Inr show ?thesis by (simp add: downloadAddonUpdate_def Let_def)
      next
        case open_ok: False
        show ?thesis
        proof (cases "sz < 0")
          case neg: True
          with Opened True Inr open_ok show ?thesis
            by (simp add: downloadAddonUpdate_def download_loop_negative Let_def)
        next
          case False
          then have "0 \<le> sz" by simp
          from downloadAddonUpdate_result [where opn = opn and u = u and rem = rem and sz = sz
              and destPath = destPath and tmp = tmp and fs = fs and H = H and fileHash = fileHash,
              OF Opened True Inr this open_ok]
          show ?thesis using Opened True Inr False open_ok by (elim exE conjE) simp
        qed
      qed
    qed
  qed
qed

theorem downloadAddonUpdate_errors_witness:
  "fst (downloadAddonUpdate short_download toy_digest ''tmp'' old_files
          ''https://host/f'' (Some ''out.nvda-addon'') None)
     = Inl (RuntimeError ''Content too short'') \<and>
   fst (downloadAddonUpdate full_download toy_digest ''tmp'' old_files
          ''https://host/f'' (Some ''out.nvda-addon'') (Some ''aaaa'')) = Inr () \<and>
   fst (downloadAddonUpdate full_download toy_digest ''tmp'' old_files
          ''https://host/f'' (Some ''out.nvda-addon'') (Some ''bbbb''))
     = Inl (RuntimeError ''Content has incorrect file hash'') \<and>
   fst (downloadAddonUpdate stalled_download toy_digest ''tmp'' old_files
          ''https://host/f'' (Some ''out.nvda-addon'') None) = Inl ReadError \<and>
   fst (downloadAddonUpdate full_download toy_digest ''tmp'' locked_files
          ''https://host/f'' (Some ''out.nvda-addon'') (Some ''aaaa'')) = Inl OSError"
  using downloadAddonUpdate_errors [of short_download toy_digest "''tmp''" old_files
          "''https://host/f''" "Some ''out.nvda-addon''" None]
    downloadAddonUpdate_errors [of full_download toy_digest "''tmp''" old_files
          "''https://host/f''" "Some ''out.nvda-addon''" "Some ''aaaa''"]
    downloadAddonUpdate_errors [of full_download toy_digest "''tmp''" old_files
          "''https://host/f''" "Some ''out.nvda-addon''" "Some ''bbbb''"]
    downloadAddonUpdate_errors [of stalled_download toy_digest "''tmp''" old_files
          "''https://host/f''" "Some ''out.nvda-addon''" None]
    downloadAddonUpdate_errors [of full_download toy_digest "''tmp''" locked_files
          "''https://host/f''" "Some ''out.nvda-addon''" "Some ''aaaa''"]
  by (simp add: short_download_def full_download_def stalled_download_def toy_digest_def
        old_files_def locked_files_def exceeds_def)

text \<open>
  The claim as stated fails: the address answers 200, the four declared bytes are all
  there and no hash is given, and the call still ends in an error, once because the
  destination cannot be opened and once because it has no room for the bytes.
\<close>

theorem downloadAddonUpdate_io_counterexample:
  "fst (downloadAddonUpdate full_download toy_digest ''tmp'' locked_files
          ''https://host/f'' (Some ''out.nvda-addon'') None) = Inl OSError \<and>
   fst (downloadAddonUpdate full_download toy_digest ''tmp'' cramped_files
          ''https://host/f'' (Some ''out.nvda-addon'') None) = Inl OSError"
proof -
  have o: "full_download ''https://host/f'' =
          Opened \<lparr>dl_code = 200, dl_size = Inr 4,
                  dl_stream = \<lparr>pending = [1, 2, 3, 4], caps = [0, 1], broken = False\<rparr>\<rparr>"
    by (simp add: full_download_def)
  have "fst (downloadAddonUpdate full_download toy_digest ''tmp'' locked_files
          ''https://host/f'' (Some ''out.nvda-addon'') None) = Inl OSError"
    by (simp add: downloadAddonUpdate_def o locked_files_def old_files_def Let_def)
  moreover have "fst (downloadAddonUpdate full_download toy_digest ''tmp'' cramped_files
          ''https://host/f'' (Some ''out.nvda-addon'') None) = Inl OSError"
    using downloadAddonUpdate_result [where opn = full_download and u = "''https://host/f''"
        and rem = "\<lparr>dl_code = 200, dl_size = Inr 4,
                  dl_stream = \<lparr>pending = [1, 2, 3, 4], caps = [0, 1], broken = False\<rparr>\<rparr>"
        and sz = 4 and destPath = "Some ''out.nvda-addon''" and tmp = "''tmp''"
        and fs = cramped_files and H = toy_digest and fileHash = None] o
    by (auto simp: cramped_files_def old_files_def exceeds_def)
  ultimately show ?thesis by simp
qed

text \<open>
  C7, as the code has it.  The destination is opened for writing before the first read
  and every block is written as it arrives; the length and the hash are checked after
  the loop.  When the call fails with the short-content or the hash error, the
  destination holds the bytes received, which are the first bytes of the response up
  to the declared length.
\<close>

theorem downloadAddonUpdate_failure_keeps_bytes:
  assumes "opn u = Opened rem" and "dl_size rem = Inr sz"
    and "fst (downloadAddonUpdate opn H tmp fs u destPath fileHash) = Inl (RuntimeError ''Content too short'')
         \<or> fst (downloadAddonUpdate opn H tmp fs u destPath fileHash)
             = Inl (RuntimeError ''Content has incorrect file hash'')"
  shows "files (fst (snd (downloadAddonUpdate opn H tmp fs u destPath fileHash)))
           (case destPath of None \<Rightarrow> tmp | Some p \<Rightarrow> if p = [] then tmp else p)
         = Some (take (nat sz) (pending (dl_stream rem)))"
proof -
  let ?dest = "case destPath of None \<Rightarrow> tmp | Some p \<Rightarrow> if p = [] then tmp else p"
  have c: "dl_code rem = 200"
    using assms by (cases "dl_code rem = 200") (auto simp: downloadAddonUpdate_def)
  have d: "?dest \<notin> set (denied fs)"
    using assms c by (cases "?dest \<in> set (denied fs)") (auto simp: downloadAddonUpdate_def Let_def)
  have "\<not> sz < 0"
    using assms c d
    by (cases "sz < 0") (auto simp: downloadAddonUpdate_def download_loop_negative Let_def)
  then have "0 \<le> sz" by simp
  from downloadAddonUpdate_result [where opn = opn and u = u and rem = rem and sz = sz
              and destPath = destPath and tmp = tmp and fs = fs and H = H and fileHash = fileHash,
      OF assms(1) c assms(2) this d]
  obtain fs' ns where
    r: "downloadAddonUpdate opn H tmp fs u destPath fileHash =
             ((if exceeds (room fs) (length (take (nat sz) (pending (dl_stream rem))))
               then Inl OSError
               else if int (length (pending (dl_stream rem))) < sz
               then (if broken (dl_stream rem) then Inl ReadError
                     else Inl (RuntimeError ''Content too short''))
               else if fileHash \<noteq> None \<and> fileHash \<noteq> Some [] \<and>
                       Some (H (take (nat sz) (pending (dl_stream rem)))) \<noteq> fileHash
               then Inl (RuntimeError ''Content has incorrect file hash'')
               else Inr ()),
              fs', ns)"
    and f: "\<not> exceeds (room fs) (length (take (nat sz) (pending (dl_stream rem)))) \<longrightarrow>
            files fs' ?dest = Some (take (nat sz) (pending (dl_stream rem)))"
    by (elim exE conjE)
  have "\<not> exceeds (room fs) (length (take (nat sz) (pending (dl_stream rem))))"
    using assms(3) unfolding r by (auto split: if_splits)
  with f show ?thesis unfolding r by simp
qed

theorem downloadAddonUpdate_failure_keeps_bytes_witness:
  "files (fst (snd (downloadAddonUpdate full_download toy_digest ''tmp'' old_files
          ''https://host/f'' (Some ''out.nvda-addon'') (Some ''bbbb'')))) ''out.nvda-addon''
     = Some [1, 2, 3, 4]"
proof -
  have o: "full_download ''https://host/f'' =
          Opened \<lparr>dl_code = 200, dl_size = Inr 4,
                  dl_stream = \<lparr>pending = [1, 2, 3, 4], caps = [0, 1], broken = False\<rparr>\<rparr>"
    by (simp add: full_download_def)
  from o downloadAddonUpdate_result [where opn = full_download and u = "''https://host/f''"
        and rem = "\<lparr>dl_code = 200, dl_size = Inr 4,
                  dl_stream = \<lparr>pending = [1, 2, 3, 4], caps = [0, 1], broken = False\<rparr>\<rparr>"
        and sz = 4 and destPath = "Some ''out.nvda-addon''" and tmp = "''tmp''"
        and fs = old_files and H = toy_digest and fileHash = "Some ''bbbb''"]
  have "fst (downloadAddonUpdate full_download toy_digest ''tmp'' old_files
          ''https://host/f'' (Some ''out.nvda-addon'') (Some ''bbbb''))
     = Inl (RuntimeError ''Content has incorrect file hash'')"
    by (auto simp: toy_digest_def old_files_def exceeds_def)
  with downloadAddonUpdate_failure_keeps_bytes [of full_download "''https://host/f''"
         "\<lparr>dl_code = 200, dl_size = Inr 4,
           dl_stream = \<lparr>pending = [1, 2, 3, 4], caps = [0, 1], broken = False\<rparr>\<rparr>"
         4 toy_digest "''tmp''" old_files "Some ''out.nvda-addon''" "Some ''bbbb''"] o
  show ?thesis by simp
qed

text \<open>The claim as stated fails: a download that ends short has already replaced the
  content of the destination by the bytes that arrived.\<close>

theorem downloadAddonUpdate_overwrites_counterexample:
  "files old_files ''out.nvda-addon'' = Some [9, 9] \<and>
   fst (downloadAddonUpdate short_download toy_digest ''tmp'' old_files
          ''https://host/f'' (Some ''out.nvda-addon'') None)
     = Inl (RuntimeError ''Content too short'') \<and>
   files (fst (snd (downloadAddonUpdate short_download toy_digest ''tmp'' old_files
          ''https://host/f'' (Some ''out.nvda-addon'') None))) ''out.nvda-addon''
     = Some [1, 2, 3]"
proof -
  have "short_download ''https://host/f'' =
          Opened \<lparr>dl_code = 200, dl_size = Inr 4,
                  dl_stream = \<lparr>pending = [1, 2, 3], caps = [], broken = False\<rparr>\<rparr>"
    by (simp add: short_download_def)
  with downloadAddonUpdate_result [where opn = short_download and u = "''https://host/f''"
        and rem = "\<lparr>dl_code = 200, dl_size = Inr 4,
                  dl_stream = \<lparr>pending = [1, 2, 3], caps = [], broken = False\<rparr>\<rparr>"
        and sz = 4 and destPath = "Some ''out.nvda-addon''" and tmp = "''tmp''"
        and fs = old_files and H = toy_digest and fileHash = None]
  show ?thesis by (auto simp: old_files_def exceeds_def)
qed

end
